theory Spec2Isabelle
  imports Complex_Main "HOL-Library.Product_Lexorder" "HOL-Library.Multiset"
begin

section \<open>Data model\<close>

text \<open>
  The partitioners of \<^verbatim>\<open>torchrec/distributed/planner/partitioners.py\<close> work on the
  planner types \<^verbatim>\<open>Storage\<close>, \<^verbatim>\<open>Perf\<close>, \<^verbatim>\<open>DeviceHardware\<close>, \<^verbatim>\<open>Topology\<close>, \<^verbatim>\<open>Shard\<close> and
  \<^verbatim>\<open>ShardingOption\<close>, which are declared in \<^verbatim>\<open>planner/types.py\<close>. They are modelled here
  with the fields and operations the partitioners use.
\<close>

text \<open>
  Modelled from the spec: \<^verbatim>\<open>Storage\<close>, the two-pool capacity vector with addition,
  subtraction and the "fits within" predicate (componentwise \<open>\<le>\<close>). Python integers are
  unbounded, hence \<^typ>\<open>int\<close>. The dataclass is ordered, so a \<^verbatim>\<open>Storage\<close> used as a sort
  key compares as the tuple \<^verbatim>\<open>(hbm, ddr)\<close>.
\<close>

record Storage =
  hbm :: int
  ddr :: int

definition storage_add :: "Storage \<Rightarrow> Storage \<Rightarrow> Storage" where
  "storage_add a b = \<lparr>hbm = hbm a + hbm b, ddr = ddr a + ddr b\<rparr>"

definition storage_sub :: "Storage \<Rightarrow> Storage \<Rightarrow> Storage" where
  "storage_sub a b = \<lparr>hbm = hbm a - hbm b, ddr = ddr a - ddr b\<rparr>"

definition fits_in :: "Storage \<Rightarrow> Storage \<Rightarrow> bool" where
  "fits_in a b \<longleftrightarrow> hbm a \<le> hbm b \<and> ddr a \<le> ddr b"

definition storage_zero :: Storage where
  "storage_zero = \<lparr>hbm = 0, ddr = 0\<rparr>"

definition storage_key :: "Storage \<Rightarrow> int \<times> int" where
  "storage_key s = (hbm s, ddr s)"

text \<open>
  Modelled from the spec: \<^verbatim>\<open>Perf\<close>, the accumulated cost of a device or the cost
  contribution of a shard, with addition and the scalar \<^verbatim>\<open>total\<close> the sort keys read.
  Python floats are idealised as rationals: addition is exact.
\<close>

record Perf =
  fwd_compute :: rat
  fwd_comms :: rat
  bwd_compute :: rat
  bwd_comms :: rat

definition perf_add :: "Perf \<Rightarrow> Perf \<Rightarrow> Perf" where
  "perf_add a b = \<lparr>fwd_compute = fwd_compute a + fwd_compute b,
                   fwd_comms = fwd_comms a + fwd_comms b,
                   bwd_compute = bwd_compute a + bwd_compute b,
                   bwd_comms = bwd_comms a + bwd_comms b\<rparr>"

definition perf_zero :: Perf where
  "perf_zero = \<lparr>fwd_compute = 0, fwd_comms = 0, bwd_compute = 0, bwd_comms = 0\<rparr>"

definition perf_total :: "Perf \<Rightarrow> rat" where
  "perf_total a = fwd_compute a + bwd_compute a + fwd_comms a + bwd_comms a"

text \<open>
  Modelled from the spec: a device has a stable non-negative rank, a remaining capacity
  and an accumulated cost. Device objects are shared between several lists (the
  topology's device list, the sorted working list, the per-host slices), so they live in
  a store: a list of cells, a device object being the index of its cell.
\<close>

record DeviceHardware =
  rank :: nat
  storage :: Storage
  perf :: Perf

type_synonym heap = "DeviceHardware list"

text \<open>
  Modelled from the spec: a topology is an ordered sequence of devices (references into
  the store), the world size and the host size.
\<close>

record Topology =
  devices :: "nat list"
  world_size :: nat
  local_world_size :: nat

text \<open>
  Modelled from the spec: a shard has a capacity footprint, a cost contribution and a
  mutable assigned rank, initially unset. A placement unit (\<^verbatim>\<open>ShardingOption\<close>) has a
  name, a fully qualified name, an optional dependency key, the strategy tag
  \<^verbatim>\<open>partition_by\<close>, its sharding type and its shards; \<^verbatim>\<open>num_shards\<close> is the number of
  shards and \<^verbatim>\<open>total_storage\<close> the sum of the shards' storage.
\<close>

record Shard =
  shard_storage :: Storage
  shard_perf :: Perf
  shard_rank :: "nat option"

record ShardingOption =
  name :: string
  fqn :: string
  dependency :: "string option"
  partition_by :: string
  sharding_type :: string
  shards :: "Shard list"

definition num_shards :: "ShardingOption \<Rightarrow> nat" where
  "num_shards so = length (shards so)"

definition total_storage :: "ShardingOption \<Rightarrow> Storage" where
  "total_storage so = foldl (\<lambda>acc sh. storage_add acc (shard_storage sh)) storage_zero (shards so)"

text \<open>The values of the enumerations \<^verbatim>\<open>PartitionByType\<close> and \<^verbatim>\<open>ShardingType\<close>.\<close>

definition DEVICE :: string where "DEVICE = ''device''"
definition HOST :: string where "HOST = ''host''"
definition UNIFORM :: string where "UNIFORM = ''uniform''"
definition TABLE_ROW_WISE :: string where "TABLE_ROW_WISE = ''table_row_wise''"
definition TABLE_COLUMN_WISE :: string where "TABLE_COLUMN_WISE = ''table_column_wise''"

text \<open>
  A proposal is the list of its placement units; the groups built from it refer to the
  units by their position in the proposal, since the packers fill in the ranks of the
  proposal's own shard objects.
\<close>

type_synonym proposal = "ShardingOption list"

record ShardingOptionGroup =
  sharding_options :: "nat list"
  storage_sum :: Storage

section \<open>Errors\<close>

text \<open>
  What the error messages interpolate is kept as data: the shard, the table name and
  the largest device storage for the device packer; the storage needed and the device's
  storage for the uniform packer; the group (its units and storage sum) for the co-host
  packer and the dispatch.
\<close>

datatype message =
    Device_partition_failed Shard string Storage
  | Shard_does_not_fit Storage Storage
  | Cant_find_host "ShardingOption list" Storage
  | Shard_count_mismatch nat nat
  | Unexpected_group "ShardingOption list" Storage
  | Unexpected_cohost_sharding_type string
  | Unexpected_length nat

datatype PlannerErrorType = PARTITION

datatype error =
    PlannerError PlannerErrorType message
  | RuntimeError message
  | AssertionError message
  | ValueError
  | ZeroDivisionError
  | IndexError

fun is_PlannerError :: "error \<Rightarrow> bool" where
  "is_PlannerError (PlannerError t m) = True"
| "is_PlannerError e = False"

text \<open>
  A call either returns or raises; in both cases it leaves a state behind (the objects it
  has mutated so far), which the caller goes on with.
\<close>

datatype 's result = Return 's | Raise error 's

fun state_of :: "'s result \<Rightarrow> 's" where
  "state_of (Return s) = s"
| "state_of (Raise e s) = s"

fun returns :: "'s result \<Rightarrow> bool" where
  "returns (Return s) = True"
| "returns (Raise e s) = False"

fun map_state :: "('s \<Rightarrow> 't) \<Rightarrow> 's result \<Rightarrow> 't result" where
  "map_state f (Return s) = Return (f s)"
| "map_state f (Raise e s) = Raise e (f s)"

section \<open>Helpers of the partitioners\<close>

text \<open>\<^verbatim>\<open>_sort_devices_by_perf\<close>: the hosts, stably sorted by the sum of their devices' cost.\<close>

definition get_perf_sum :: "heap \<Rightarrow> nat list \<Rightarrow> rat" where
  "get_perf_sum h device_list = foldl (\<lambda>p d. p + perf_total (perf (h ! d))) 0 device_list"

definition sort_devices_by_perf :: "heap \<Rightarrow> nat list list \<Rightarrow> nat list list" where
  "sort_devices_by_perf h ds = sort_key (get_perf_sum h) ds"

text \<open>\<^verbatim>\<open>_get_uniform_sharding_options\<close>: the uniform units, in the proposal's order.\<close>

definition get_uniform_sharding_options :: "proposal \<Rightarrow> nat list" where
  "get_uniform_sharding_options p =
     filter (\<lambda>i. partition_by (p ! i) = UNIFORM) [0..<length p]"

text \<open>
  \<^verbatim>\<open>_group_and_sort_non_uniform_sharding_options\<close>. The dictionary keeps its keys in
  insertion order, so it is an association list; \<^verbatim>\<open>dependency or fqn\<close> takes the fully
  qualified name when the dependency is \<^verbatim>\<open>None\<close> or the empty string. The final
  \<^verbatim>\<open>sort(key, reverse=True)\<close> is stable: it reverses the list, sorts it stably in ascending
  order and reverses it again.
\<close>

definition group_key :: "ShardingOption \<Rightarrow> string" where
  "group_key so = (case dependency so of None \<Rightarrow> fqn so
                   | Some d \<Rightarrow> if d = [] then fqn so else d)"

fun group_add :: "string \<Rightarrow> nat \<Rightarrow> Storage \<Rightarrow> (string \<times> ShardingOptionGroup) list
    \<Rightarrow> (string \<times> ShardingOptionGroup) list" where
  "group_add k i st [] = [(k, \<lparr>sharding_options = [i], storage_sum = st\<rparr>)]"
| "group_add k i st ((k', g) # gs) =
     (if k = k'
      then (k', g\<lparr>sharding_options := sharding_options g @ [i],
                  storage_sum := storage_add (storage_sum g) st\<rparr>) # gs
      else (k', g) # group_add k i st gs)"

fun group_loop :: "proposal \<Rightarrow> nat list \<Rightarrow> (string \<times> ShardingOptionGroup) list
    \<Rightarrow> (string \<times> ShardingOptionGroup) list" where
  "group_loop p [] groups = groups"
| "group_loop p (i # is) groups =
     (if partition_by (p ! i) = UNIFORM then group_loop p is groups
      else group_loop p is (group_add (group_key (p ! i)) i (total_storage (p ! i)) groups))"

definition sort_reverse :: "('a \<Rightarrow> 'k::linorder) \<Rightarrow> 'a list \<Rightarrow> 'a list" where
  "sort_reverse f xs = rev (sort_key f (rev xs))"

definition group_and_sort_non_uniform_sharding_options :: "proposal \<Rightarrow> ShardingOptionGroup list" where
  "group_and_sort_non_uniform_sharding_options p =
     sort_reverse (\<lambda>g. storage_key (storage_sum g))
       (map snd (group_loop p [0..<length p] []))"

section \<open>The packers of \<^verbatim>\<open>GreedyPerfPartitioner\<close>\<close>

text \<open>
  \<^verbatim>\<open>copy.deepcopy\<close> of a list of devices: every device object of the list is copied once
  into a fresh cell at the end of the store (an object that occurs twice in the list is
  copied once, as the memo of \<^verbatim>\<open>deepcopy\<close> has it), and the copy of the list refers to
  the new cells.
\<close>

fun deepcopy_memo :: "heap \<Rightarrow> (nat \<times> nat) list \<Rightarrow> nat list \<Rightarrow> heap \<times> nat list" where
  "deepcopy_memo h memo [] = (h, [])"
| "deepcopy_memo h memo (d # ds) =
     (case map_of memo d of
        Some c \<Rightarrow> (case deepcopy_memo h memo ds of (h', cs) \<Rightarrow> (h', c # cs))
      | None \<Rightarrow>
          (case deepcopy_memo (h @ [h ! d]) ((d, length h) # memo) ds of
             (h', cs) \<Rightarrow> (h', length h # cs)))"

definition deepcopy :: "heap \<Rightarrow> nat list \<Rightarrow> heap \<times> nat list" where
  "deepcopy h ds = deepcopy_memo h [] ds"

text \<open>
  \<^verbatim>\<open>_get_host_level_devices\<close>: the slices \<^verbatim>\<open>devices[i * lws : (i + 1) * lws]\<close> for
  \<^verbatim>\<open>i\<close> below \<^verbatim>\<open>world_size // local_world_size\<close>; the division raises when the host size
  is zero. A slice that reaches beyond the list is cut short, as in Python.
\<close>

definition get_host_level_devices :: "Topology \<Rightarrow> error + nat list list" where
  "get_host_level_devices t =
     (if local_world_size t = 0 then Inl ZeroDivisionError
      else Inr (map (\<lambda>i. take (local_world_size t) (drop (i * local_world_size t) (devices t)))
                  [0..<world_size t div local_world_size t]))"

text \<open>
  \<^verbatim>\<open>_uniform_partition\<close>. The inner loop runs over the positions of the device list; the
  check before it makes the shard list as long, so the loop walks both lists together.
  A device is charged by writing its cell: \<^verbatim>\<open>storage -= ...\<close> and \<^verbatim>\<open>perf += ...\<close> build new
  values and rebind the fields.
\<close>

definition charge :: "Shard \<Rightarrow> DeviceHardware \<Rightarrow> DeviceHardware" where
  "charge sh dev = dev\<lparr>storage := storage_sub (storage dev) (shard_storage sh),
                        perf := perf_add (perf dev) (shard_perf sh)\<rparr>"

fun uniform_shards :: "Shard list \<Rightarrow> nat list \<Rightarrow> heap \<Rightarrow> (Shard list \<times> heap) result" where
  "uniform_shards shs [] h = Return (shs, h)"
| "uniform_shards [] (d # ds) h = Raise IndexError ([], h)"
| "uniform_shards (sh # shs) (d # ds) h =
     (if \<not> fits_in (shard_storage sh) (storage (h ! d))
      then Raise (PlannerError PARTITION
                   (Shard_does_not_fit (shard_storage sh) (storage (h ! d)))) (sh # shs, h)
      else map_state (\<lambda>(shs', h'). (sh\<lparr>shard_rank := Some (rank (h ! d))\<rparr> # shs', h'))
             (uniform_shards shs ds (h[d := charge sh (h ! d)])))"

definition set_shards :: "nat \<Rightarrow> proposal \<Rightarrow> Shard list \<Rightarrow> proposal" where
  "set_shards i p shs = p[i := (p ! i)\<lparr>shards := shs\<rparr>]"

fun uniform_partition :: "nat list \<Rightarrow> nat list \<Rightarrow> proposal \<times> heap \<Rightarrow> (proposal \<times> heap) result" where
  "uniform_partition [] ds (p, h) = Return (p, h)"
| "uniform_partition (i # is) ds (p, h) =
     (if num_shards (p ! i) \<noteq> length ds
      then Raise (RuntimeError (Shard_count_mismatch (num_shards (p ! i)) (length ds))) (p, h)
      else (case uniform_shards (shards (p ! i)) ds h of
              Raise e (shs, h') \<Rightarrow> Raise e (set_shards i p shs, h')
            | Return (shs, h') \<Rightarrow> uniform_partition is ds (set_shards i p shs, h')))"

text \<open>
  \<^verbatim>\<open>_device_partition\<close>. Before each shard the device list is sorted in place (a stable
  sort) by the pair of the device's total cost and its rank modulo the host size; the
  key raises when the host size is zero and there is a device to compute it for, and
  then the list is left as it was. The first device of the sorted list that admits the
  shard takes it. When none does, the message asks for the device of largest storage:
  \<^verbatim>\<open>max\<close> keeps the first maximal device and raises on an empty list.
\<close>

definition device_key :: "heap \<Rightarrow> nat \<Rightarrow> nat \<Rightarrow> rat \<times> nat" where
  "device_key h lws d = (perf_total (perf (h ! d)), rank (h ! d) mod lws)"

fun max_by_storage :: "heap \<Rightarrow> nat \<Rightarrow> nat list \<Rightarrow> nat" where
  "max_by_storage h b [] = b"
| "max_by_storage h b (d # ds) =
     max_by_storage h (if storage_key (storage (h ! b)) < storage_key (storage (h ! d)) then d else b) ds"

definition no_rank_error :: "string \<Rightarrow> Shard \<Rightarrow> nat list \<Rightarrow> heap \<Rightarrow> error" where
  "no_rank_error nm sh ds h =
     (case ds of
        [] \<Rightarrow> ValueError
      | b # bs \<Rightarrow>
          PlannerError PARTITION
            (Device_partition_failed sh nm (storage (h ! max_by_storage h b bs))))"

fun device_shards :: "string \<Rightarrow> nat \<Rightarrow> Shard list \<Rightarrow> nat list \<Rightarrow> heap
    \<Rightarrow> (Shard list \<times> nat list \<times> heap) result" where
  "device_shards nm lws [] ds h = Return ([], ds, h)"
| "device_shards nm lws (sh # shs) ds h =
     (if lws = 0 \<and> ds \<noteq> [] then Raise ZeroDivisionError (sh # shs, ds, h)
      else
        (let ds' = sort_key (device_key h lws) ds in
         case find (\<lambda>d. fits_in (shard_storage sh) (storage (h ! d))) ds' of
           Some d \<Rightarrow>
             map_state (\<lambda>(shs', r). (sh\<lparr>shard_rank := Some (rank (h ! d))\<rparr> # shs', r))
               (device_shards nm lws shs ds' (h[d := charge sh (h ! d)]))
         | None \<Rightarrow> Raise (no_rank_error nm sh ds' h) (sh # shs, ds', h)))"

definition device_partition :: "nat \<Rightarrow> nat list \<Rightarrow> nat \<Rightarrow> proposal \<times> heap
    \<Rightarrow> (proposal \<times> nat list \<times> heap) result" where
  "device_partition i ds lws = (\<lambda>(p, h).
     map_state (\<lambda>(shs, r). (set_shards i p shs, r))
       (device_shards (name (p ! i)) lws (shards (p ! i)) ds h))"

text \<open>
  \<^verbatim>\<open>_cohost_partition\<close>. The hosts are tried in the order of \<^verbatim>\<open>_sort_devices_by_perf\<close>,
  computed once on entry. A trial works on a deep copy of the host's devices; a
  \<^verbatim>\<open>PlannerError\<close> of a sub-packer ends the trial and the next host is tried, any other
  exception leaves the function. After a successful trial the copies are sorted by rank
  and their storage and perf are written to the host's devices, position by position.
\<close>

fun cohost_options :: "nat list \<Rightarrow> nat list \<Rightarrow> proposal \<times> heap
    \<Rightarrow> (proposal \<times> nat list \<times> heap) result" where
  "cohost_options [] host_devices (p, h) = Return (p, host_devices, h)"
| "cohost_options (i # is) host_devices (p, h) =
     (if sharding_type (p ! i) = TABLE_ROW_WISE then
        (case uniform_partition [i] host_devices (p, h) of
           Raise e (p', h') \<Rightarrow> Raise e (p', host_devices, h')
         | Return (p', h') \<Rightarrow> cohost_options is host_devices (p', h'))
      else if sharding_type (p ! i) = TABLE_COLUMN_WISE then
        (case device_partition i host_devices (length host_devices) (p, h) of
           Raise e s \<Rightarrow> Raise e s
         | Return (p', host_devices', h') \<Rightarrow> cohost_options is host_devices' (p', h'))
      else Raise (RuntimeError (Unexpected_cohost_sharding_type (sharding_type (p ! i))))
             (p, host_devices, h))"

fun copy_back :: "heap \<Rightarrow> nat list \<Rightarrow> nat list \<Rightarrow> heap" where
  "copy_back h (d # ds) (c # cs) =
     copy_back (h[d := (h ! d)\<lparr>storage := storage (h ! c), perf := perf (h ! c)\<rparr>]) ds cs"
| "copy_back h ds cs = h"

definition host_storage :: "heap \<Rightarrow> nat list \<Rightarrow> Storage" where
  "host_storage h host_devices =
     foldl (\<lambda>acc d. storage_add acc (storage (h ! d))) storage_zero host_devices"

definition group_message :: "proposal \<Rightarrow> ShardingOptionGroup \<Rightarrow> (ShardingOption list \<Rightarrow> Storage \<Rightarrow> message) \<Rightarrow> message" where
  "group_message p g m = m (map (\<lambda>i. p ! i) (sharding_options g)) (storage_sum g)"

fun cohost_hosts :: "ShardingOptionGroup \<Rightarrow> nat list list \<Rightarrow> proposal \<times> heap
    \<Rightarrow> (proposal \<times> heap) result" where
  "cohost_hosts g [] (p, h) =
     Raise (PlannerError PARTITION (group_message p g Cant_find_host)) (p, h)"
| "cohost_hosts g (devs # rest) (p, h) =
     (case deepcopy h devs of (h1, host_devices) \<Rightarrow>
        if \<not> fits_in (storage_sum g) (host_storage h1 host_devices)
        then cohost_hosts g rest (p, h1)
        else
          (case cohost_options (sharding_options g) host_devices (p, h1) of
             Raise e (p', host_devices', h') \<Rightarrow>
               if is_PlannerError e then cohost_hosts g rest (p', h') else Raise e (p', h')
           | Return (p', host_devices', h') \<Rightarrow>
               Return (p', copy_back h' devs (sort_key (\<lambda>d. rank (h' ! d)) host_devices'))))"

definition cohost_partition :: "ShardingOptionGroup \<Rightarrow> nat list list \<Rightarrow> proposal \<times> heap
    \<Rightarrow> (proposal \<times> heap) result" where
  "cohost_partition g host_level_devices = (\<lambda>(p, h).
     cohost_hosts g (sort_devices_by_perf h host_level_devices) (p, h))"

section \<open>\<^verbatim>\<open>GreedyPerfPartitioner.partition\<close>\<close>

text \<open>
  The dispatch over the sorted groups. The state is the proposal, the sorted working
  list of devices (which \<^verbatim>\<open>_device_partition\<close> reorders in place) and the store.
\<close>

fun partition_groups :: "ShardingOptionGroup list \<Rightarrow> nat list list \<Rightarrow> nat
    \<Rightarrow> proposal \<times> nat list \<times> heap \<Rightarrow> (proposal \<times> nat list \<times> heap) result" where
  "partition_groups [] hosts lws (p, sorted_devices, h) = Return (p, sorted_devices, h)"
| "partition_groups (g # gs) hosts lws (p, sorted_devices, h) =
     (case sharding_options g of
        [] \<Rightarrow> Raise IndexError (p, sorted_devices, h)
      | i # rest \<Rightarrow>
          if partition_by (p ! i) = HOST then
            (case cohost_partition g hosts (p, h) of
               Raise e (p', h') \<Rightarrow> Raise e (p', sorted_devices, h')
             | Return (p', h') \<Rightarrow> partition_groups gs hosts lws (p', sorted_devices, h'))
          else if partition_by (p ! i) = DEVICE then
            (if length (sharding_options g) \<noteq> 1
             then Raise (AssertionError (Unexpected_length (length (sharding_options g))))
                    (p, sorted_devices, h)
             else
               (case device_partition i sorted_devices lws (p, h) of
                  Raise e s \<Rightarrow> Raise e s
                | Return s \<Rightarrow> partition_groups gs hosts lws s))
          else Raise (RuntimeError (group_message p g Unexpected_group)) (p, sorted_devices, h))"

text \<open>
  \<^verbatim>\<open>partition\<close> takes the proposal, the caller's topology and the store, and leaves the
  proposal (whose shard ranks it fills in) and the store; on return it also gives the
  working topology it retains as \<^verbatim>\<open>self._topology\<close>. The working topology is a deep copy:
  its devices are fresh cells of the store.
\<close>

definition partition :: "proposal \<Rightarrow> Topology \<Rightarrow> heap
    \<Rightarrow> (proposal \<times> heap \<times> Topology option) result" where
  "partition p storage_constraint h =
     (case deepcopy h (devices storage_constraint) of (h1, ds) \<Rightarrow>
        let topology = storage_constraint\<lparr>devices := ds\<rparr>;
            sorted_devices = devices topology
        in case get_host_level_devices topology of
             Inl e \<Rightarrow> Raise e (p, h1, None)
           | Inr host_level_devices \<Rightarrow>
               (case uniform_partition (get_uniform_sharding_options p) (devices topology) (p, h1) of
                  Raise e (p', h') \<Rightarrow> Raise e (p', h', None)
                | Return (p', h') \<Rightarrow>
                    (case partition_groups (group_and_sort_non_uniform_sharding_options p')
                            host_level_devices (local_world_size topology)
                            (p', sorted_devices, h') of
                       Raise e (p'', sd, h'') \<Rightarrow> Raise e (p'', h'', None)
                     | Return (p'', sd, h'') \<Rightarrow> Return (p'', h'', Some topology))))"

section \<open>\<^verbatim>\<open>MemoryBalancedPartitioner.partition\<close>\<close>

text \<open>
  Modelled from the spec: \<^verbatim>\<open>reset_shard_rank\<close> (of \<^verbatim>\<open>planner/utils.py\<close>) resets all shard
  ranks of a proposal to unassigned.
\<close>

definition reset_shard_rank :: "proposal \<Rightarrow> proposal" where
  "reset_shard_rank p =
     map (\<lambda>so. so\<lparr>shards := map (\<lambda>sh. sh\<lparr>shard_rank := None\<rparr>) (shards so)\<rparr>) p"

text \<open>\<^verbatim>\<open>set_hbm_per_device\<close> writes the cap into the storage of every device of the topology.\<close>

fun set_hbm_devices :: "nat list \<Rightarrow> int \<Rightarrow> heap \<Rightarrow> heap" where
  "set_hbm_devices [] hbm_per_device h = h"
| "set_hbm_devices (d # ds) hbm_per_device h =
     set_hbm_devices ds hbm_per_device
       (h[d := (h ! d)\<lparr>storage := (storage (h ! d))\<lparr>hbm := hbm_per_device\<rparr>\<rparr>])"

definition set_hbm_per_device :: "Topology \<Rightarrow> int \<Rightarrow> heap \<Rightarrow> heap" where
  "set_hbm_per_device storage_constraint hbm_per_device h =
     set_hbm_devices (devices storage_constraint) hbm_per_device h"

text \<open>
  The partitioner object holds the search bound and the tolerance. The perf model that
  rates a plan (\<^verbatim>\<open>NoopPerfModel\<close> of \<^verbatim>\<open>planner/perf_models.py\<close>) is a parameter: a pure
  function from plans to costs, costs being idealised as rationals like \<^verbatim>\<open>Perf\<close>.
\<close>

record MemoryBalancedPartitioner =
  max_search_count :: int
  tolerance :: rat

text \<open>
  The variables of the search loop: the iteration count, the bracket \<open>(min, max]\<close>, the
  plan to fall back on, and the proposal and store the calls of
  \<^verbatim>\<open>GreedyPerfPartitioner.partition\<close> work on.
\<close>

record search =
  search_count :: int
  min_hbm_per_device :: int
  max_hbm_per_device :: int
  default_plan :: proposal
  proposal_of :: proposal
  heap_of :: heap

text \<open>
  One turn of the loop body: the ranks are reset, the cap is set to the midpoint, and the
  greedy partitioner is called. A plan within the tolerance becomes the plan to fall
  back on (a deep copy, here the value) and lowers \<open>max\<close>; a plan beyond it, or a
  \<^verbatim>\<open>PlannerError\<close>, raises \<open>min\<close>; any other exception leaves the loop.
\<close>

definition search_step :: "MemoryBalancedPartitioner \<Rightarrow> (proposal \<Rightarrow> rat) \<Rightarrow> rat \<Rightarrow> Topology
    \<Rightarrow> search \<Rightarrow> search result" where
  "search_step self rate original_plan_perf topology s =
     (let p1 = reset_shard_rank (proposal_of s);
          mid_hbm_per_device = (max_hbm_per_device s + min_hbm_per_device s) div 2;
          h1 = set_hbm_per_device topology mid_hbm_per_device (heap_of s);
          s1 = s\<lparr>search_count := search_count s + 1\<rparr>
      in case partition p1 topology h1 of
           Return (new_plan, h2, t) \<Rightarrow>
             if rate new_plan > original_plan_perf * (1 + tolerance self)
             then Return (s1\<lparr>min_hbm_per_device := mid_hbm_per_device,
                              proposal_of := new_plan, heap_of := h2\<rparr>)
             else Return (s1\<lparr>max_hbm_per_device := mid_hbm_per_device,
                              default_plan := new_plan,
                              proposal_of := new_plan, heap_of := h2\<rparr>)
         | Raise e (p2, h2, t) \<Rightarrow>
             if is_PlannerError e
             then Return (s1\<lparr>min_hbm_per_device := mid_hbm_per_device,
                              proposal_of := p2, heap_of := h2\<rparr>)
             else Raise e (s1\<lparr>proposal_of := p2, heap_of := h2\<rparr>))"

definition search_continues :: "MemoryBalancedPartitioner \<Rightarrow> search \<Rightarrow> bool" where
  "search_continues self s \<longleftrightarrow>
     search_count s < max_search_count self
     \<and> min_hbm_per_device s + 10 * 1024 ^ 2 < max_hbm_per_device s"

lemma search_step_count:
  "search_count (state_of (search_step self rate original_plan_perf topology s)) = search_count s + 1"
  by (simp add: search_step_def Let_def split: result.split prod.split)

function search_loop :: "MemoryBalancedPartitioner \<Rightarrow> (proposal \<Rightarrow> rat) \<Rightarrow> rat \<Rightarrow> Topology
    \<Rightarrow> search \<Rightarrow> search result" where
  "search_loop self rate original_plan_perf topology s =
     (if search_continues self s
      then (case search_step self rate original_plan_perf topology s of
              Return s' \<Rightarrow> search_loop self rate original_plan_perf topology s'
            | Raise e s' \<Rightarrow> Raise e s')
      else Return s)"
  by pat_completeness auto
termination
proof (relation "measure (\<lambda>(self, rate, perf, topology, s).
                  nat (max_search_count self - search_count s))")
  show "wf (measure (\<lambda>(self, rate, perf, topology, s).
                  nat (max_search_count self - search_count s)))"
    by simp
next
  fix self :: MemoryBalancedPartitioner and rate :: "proposal \<Rightarrow> rat" and original_plan_perf
    and topology and s s' :: search
  assume c: "search_continues self s"
    and r: "search_step self rate original_plan_perf topology s = Return s'"
  have "search_count s' = search_count s + 1"
    using search_step_count [of self rate original_plan_perf topology s] r by simp
  with c show "((self, rate, original_plan_perf, topology, s'),
                self, rate, original_plan_perf, topology, s)
               \<in> measure (\<lambda>(self, rate, perf, topology, s).
                  nat (max_search_count self - search_count s))"
    by (simp add: search_continues_def)
qed

declare search_loop.simps [simp del]

text \<open>
  \<^verbatim>\<open>int(hbm_requirement / world_size)\<close>: the quotient truncated towards zero (the float
  division is idealised as exact); it raises when the world size is zero.
\<close>

definition hbm_requirement :: "proposal \<Rightarrow> int" where
  "hbm_requirement p =
     foldl (\<lambda>acc so. foldl (\<lambda>acc sh. acc + hbm (shard_storage sh)) acc (shards so)) 0 p"

definition int_truediv :: "int \<Rightarrow> nat \<Rightarrow> int" where
  "int_truediv a b = (if 0 \<le> a then a div int b else - ((- a) div int b))"

text \<open>
  The whole call. The result state holds the loop variables; on return
  \<^const>\<open>default_plan\<close> is the plan returned.
\<close>

definition memory_balanced_partition :: "MemoryBalancedPartitioner \<Rightarrow> (proposal \<Rightarrow> rat)
    \<Rightarrow> proposal \<Rightarrow> Topology \<Rightarrow> heap \<Rightarrow> search result" where
  "memory_balanced_partition self rate p storage_constraint h =
     (case deepcopy h (devices storage_constraint) of (h1, ds) \<Rightarrow>
        let topology = storage_constraint\<lparr>devices := ds\<rparr>;
            s0 = \<lparr>search_count = 0, min_hbm_per_device = 0, max_hbm_per_device = 0,
                  default_plan = [], proposal_of = p, heap_of = h1\<rparr>
        in case partition p topology h1 of
             Raise e (p', h', t) \<Rightarrow> Raise e (s0\<lparr>proposal_of := p', heap_of := h'\<rparr>)
           | Return (p', h', t) \<Rightarrow>
               let s1 = s0\<lparr>default_plan := p', proposal_of := p', heap_of := h'\<rparr>;
                   original_plan_perf = rate p'
               in (case devices topology of
                     [] \<Rightarrow> Raise IndexError s1
                   | d # ds' \<Rightarrow>
                       if world_size topology = 0 then Raise ZeroDivisionError s1
                       else search_loop self rate original_plan_perf topology
                              (s1\<lparr>max_hbm_per_device := hbm (storage (h' ! d)),
                                   min_hbm_per_device :=
                                     int_truediv (hbm_requirement p') (world_size topology)\<rparr>)))"

section \<open>Algebra of storage and perf\<close>

lemma storage_add_assoc: "storage_add (storage_add a b) c = storage_add a (storage_add b c)"
  by (simp add: storage_add_def)

lemma storage_add_commute: "storage_add a b = storage_add b a"
  by (simp add: storage_add_def)

lemma storage_add_left_commute: "storage_add a (storage_add b c) = storage_add b (storage_add a c)"
  by (simp add: storage_add_def)

lemma storage_add_zero [simp]:
  "storage_add (a::Storage) storage_zero = a" "storage_add storage_zero (a::Storage) = a"
  by (simp_all add: storage_add_def storage_zero_def)

definition storage_sum_list :: "Storage list \<Rightarrow> Storage" where
  "storage_sum_list xs = foldr storage_add xs storage_zero"

lemma storage_sum_list_simps [simp]:
  "storage_sum_list [] = storage_zero"
  "storage_sum_list (x # xs) = storage_add x (storage_sum_list xs)"
  by (simp_all add: storage_sum_list_def)

lemma storage_sum_list_append:
  "storage_sum_list (xs @ ys) = storage_add (storage_sum_list xs) (storage_sum_list ys)"
  by (induction xs) (simp_all add: storage_add_assoc)

section \<open>The grouping stage\<close>

text \<open>
  The grouping stage in the words of the specification, for a given grouping key: the
  non-uniform units, in the proposal's order; the keys in the order of their first
  occurrence; for each key the group of the units with that key, with the sum of their
  storage; the groups sorted by descending storage sum, ties keeping the insertion order.
\<close>

definition spec_non_uniform :: "proposal \<Rightarrow> nat list" where
  "spec_non_uniform p = filter (\<lambda>i. partition_by (p ! i) \<noteq> UNIFORM) [0..<length p]"

fun spec_first_occurrences :: "'a list \<Rightarrow> 'a list" where
  "spec_first_occurrences [] = []"
| "spec_first_occurrences (x # xs) = x # filter (\<lambda>y. y \<noteq> x) (spec_first_occurrences xs)"

definition spec_members :: "(ShardingOption \<Rightarrow> string) \<Rightarrow> proposal \<Rightarrow> nat list \<Rightarrow> string \<Rightarrow> nat list" where
  "spec_members key p js k = filter (\<lambda>i. key (p ! i) = k) js"

definition spec_group :: "(ShardingOption \<Rightarrow> string) \<Rightarrow> proposal \<Rightarrow> nat list \<Rightarrow> string
    \<Rightarrow> ShardingOptionGroup" where
  "spec_group key p js k =
     \<lparr>sharding_options = spec_members key p js k,
      storage_sum = storage_sum_list (map (\<lambda>i. total_storage (p ! i)) (spec_members key p js k))\<rparr>"

definition spec_keys :: "(ShardingOption \<Rightarrow> string) \<Rightarrow> proposal \<Rightarrow> nat list \<Rightarrow> string list" where
  "spec_keys key p js = spec_first_occurrences (map (\<lambda>i. key (p ! i)) js)"

definition spec_groups :: "(ShardingOption \<Rightarrow> string) \<Rightarrow> proposal \<Rightarrow> ShardingOptionGroup list" where
  "spec_groups key p =
     map (spec_group key p (spec_non_uniform p)) (spec_keys key p (spec_non_uniform p))"

text \<open>
  Two readings of the grouping key. The specification's words, "the dependency key if
  present, else the unit's own identity", give \<open>dependency_if_present\<close>: every
  dependency that is not \<^verbatim>\<open>None\<close> is a key, the empty string included. The amended
  reading \<open>dependency_if_non_empty\<close> takes the dependency only when it is a non-empty
  string.
\<close>

definition dependency_if_present :: "ShardingOption \<Rightarrow> string" where
  "dependency_if_present so = (case dependency so of None \<Rightarrow> fqn so | Some d \<Rightarrow> d)"

definition dependency_if_non_empty :: "ShardingOption \<Rightarrow> string" where
  "dependency_if_non_empty so =
     (if dependency so = None \<or> dependency so = Some [] then fqn so else the (dependency so))"

text \<open>
  Two host-scoped units whose dependency is the empty string, with storage 1 and 2.
\<close>

definition empty_dependency_proposal :: proposal where
  "empty_dependency_proposal =
     [\<lparr>name = ''a'', fqn = ''a'', dependency = Some [], partition_by = HOST,
       sharding_type = TABLE_ROW_WISE,
       shards = [\<lparr>shard_storage = \<lparr>hbm = 1, ddr = 0\<rparr>, shard_perf = perf_zero,
                  shard_rank = None\<rparr>]\<rparr>,
      \<lparr>name = ''b'', fqn = ''b'', dependency = Some [], partition_by = HOST,
       sharding_type = TABLE_ROW_WISE,
       shards = [\<lparr>shard_storage = \<lparr>hbm = 2, ddr = 0\<rparr>, shard_perf = perf_zero,
                  shard_rank = None\<rparr>]\<rparr>]"

lemma group_key_non_empty: "group_key so = dependency_if_non_empty so"
  by (cases "dependency so") (simp_all add: group_key_def dependency_if_non_empty_def)

lemma set_spec_first_occurrences [simp]: "set (spec_first_occurrences xs) = set xs"
  by (induction xs) auto

lemma distinct_spec_first_occurrences [simp]: "distinct (spec_first_occurrences xs)"
  by (induction xs) auto

lemma spec_first_occurrences_snoc:
  "spec_first_occurrences (xs @ [x]) =
     (if x \<in> set xs then spec_first_occurrences xs else spec_first_occurrences xs @ [x])"
proof (induction xs)
  case Nil
  show ?case by simp
next
  case (Cons a xs)
  then show ?case by (auto simp: filter_id_conv)
qed

lemma group_add_present:
  "k \<in> set ks \<Longrightarrow> distinct ks \<Longrightarrow>
   group_add k i st (map (\<lambda>k'. (k', G k')) ks) =
   map (\<lambda>k'. (k', if k' = k
                   then (G k')\<lparr>sharding_options := sharding_options (G k') @ [i],
                                storage_sum := storage_add (storage_sum (G k')) st\<rparr>
                   else G k')) ks"
  by (induction ks) auto

lemma group_add_absent:
  "k \<notin> set ks \<Longrightarrow>
   group_add k i st (map (\<lambda>k'. (k', G k')) ks) =
   map (\<lambda>k'. (k', G k')) ks @ [(k, \<lparr>sharding_options = [i], storage_sum = st\<rparr>)]"
  by (induction ks) auto

lemma spec_group_snoc:
  "spec_group key p (js @ [j]) k =
     (if key (p ! j) = k
      then (spec_group key p js k)\<lparr>sharding_options := sharding_options (spec_group key p js k) @ [j],
            storage_sum := storage_add (storage_sum (spec_group key p js k)) (total_storage (p ! j))\<rparr>
      else spec_group key p js k)"
  by (simp add: spec_group_def spec_members_def storage_sum_list_append)

lemma spec_members_new:
  "key (p ! j) \<notin> (\<lambda>i. key (p ! i)) ` set js \<Longrightarrow> spec_members key p js (key (p ! j)) = []"
  by (auto simp: spec_members_def filter_empty_conv image_iff)

definition keyed_groups :: "(ShardingOption \<Rightarrow> string) \<Rightarrow> proposal \<Rightarrow> nat list
    \<Rightarrow> (string \<times> ShardingOptionGroup) list" where
  "keyed_groups key p js = map (\<lambda>k. (k, spec_group key p js k)) (spec_keys key p js)"

lemma keyed_groups_snoc:
  "keyed_groups key p (js @ [j]) =
     group_add (key (p ! j)) j (total_storage (p ! j)) (keyed_groups key p js)"
proof (cases "key (p ! j) \<in> (\<lambda>i. key (p ! i)) ` set js")
  case True
  then show ?thesis
    unfolding keyed_groups_def spec_keys_def
    by (simp add: spec_first_occurrences_snoc group_add_present spec_group_snoc)
next
  case False
  have new: "spec_group key p (js @ [j]) (key (p ! j))
             = \<lparr>sharding_options = [j], storage_sum = total_storage (p ! j)\<rparr>"
    using spec_members_new [OF False] by (simp add: spec_group_def spec_members_def)
  have old: "map (\<lambda>k. (k, spec_group key p (js @ [j]) k))
               (spec_first_occurrences (map (\<lambda>i. key (p ! i)) js))
             = map (\<lambda>k. (k, spec_group key p js k))
               (spec_first_occurrences (map (\<lambda>i. key (p ! i)) js))"
    using False by (intro map_cong refl) (auto simp: spec_group_snoc)
  from False show ?thesis
    unfolding keyed_groups_def spec_keys_def
    by (simp add: spec_first_occurrences_snoc group_add_absent new old)
qed

lemma group_loop_append:
  "group_loop p (is @ js) acc = group_loop p js (group_loop p is acc)"
  by (induction "is" arbitrary: acc) auto

lemma group_loop_keyed_groups:
  "group_loop p is [] =
     keyed_groups dependency_if_non_empty p (filter (\<lambda>i. partition_by (p ! i) \<noteq> UNIFORM) is)"
proof (induction "is" rule: rev_induct)
  case Nil
  show ?case by (simp add: keyed_groups_def spec_keys_def)
next
  case (snoc i "is")
  then show ?case by (simp add: group_loop_append keyed_groups_snoc group_key_non_empty)
qed

lemma group_loop_spec_groups:
  "map snd (group_loop p [0..<length p] []) = spec_groups dependency_if_non_empty p"
  by (simp add: group_loop_keyed_groups keyed_groups_def spec_groups_def spec_non_uniform_def
      comp_def)

lemma sort_reverse_mset [simp]: "mset (sort_reverse f xs) = mset xs"
  by (simp add: sort_reverse_def)

lemma sort_reverse_set [simp]: "set (sort_reverse f xs) = set xs"
  by (simp add: sort_reverse_def)

lemma sort_reverse_sorted: "sorted (rev (map f (sort_reverse f xs)))"
  by (simp add: sort_reverse_def rev_map)

lemma sort_reverse_stable:
  "filter (\<lambda>x. f x = v) (sort_reverse f xs) = filter (\<lambda>x. f x = v) xs"
  by (simp add: sort_reverse_def rev_filter [symmetric] sort_key_stable)

lemma group_and_sort_eq:
  "group_and_sort_non_uniform_sharding_options p
   = sort_reverse (\<lambda>g. storage_key (storage_sum g)) (spec_groups dependency_if_non_empty p)"
  by (simp add: group_and_sort_non_uniform_sharding_options_def group_loop_spec_groups)

lemma mset_concat_members:
  "distinct ks \<Longrightarrow>
   mset (concat (map (spec_members key p js) ks)) = mset (filter (\<lambda>i. key (p ! i) \<in> set ks) js)"
proof (induction ks)
  case Nil
  show ?case by simp
next
  case (Cons k ks)
  have "mset (filter (\<lambda>i. key (p ! i) \<in> set (k # ks)) js)
        = mset (filter (\<lambda>i. key (p ! i) = k) js)
          + mset (filter (\<lambda>i. key (p ! i) \<in> set ks) js)"
    using Cons.prems by (induction js) auto
  with Cons show ?case by (simp add: spec_members_def)
qed

lemma mset_spec_groups:
  "mset (concat (map sharding_options (spec_groups key p))) = mset (spec_non_uniform p)"
proof -
  have "map sharding_options (spec_groups key p)
        = map (spec_members key p (spec_non_uniform p)) (spec_keys key p (spec_non_uniform p))"
    by (simp add: spec_groups_def spec_group_def comp_def)
  moreover have "filter (\<lambda>i. key (p ! i) \<in> set (spec_keys key p (spec_non_uniform p)))
                   (spec_non_uniform p) = spec_non_uniform p"
    by (simp add: spec_keys_def filter_id_conv)
  ultimately show ?thesis
    using mset_concat_members [of "spec_keys key p (spec_non_uniform p)" key p "spec_non_uniform p"]
    by (simp add: spec_keys_def)
qed

lemma mset_concat_cong:
  "mset xs = mset ys \<Longrightarrow> mset (concat (map f xs)) = mset (concat (map f ys))"
proof -
  assume eq: "mset xs = mset ys"
  have "sum_list (map (mset \<circ> f) zs) = sum_mset (image_mset (mset \<circ> f) (mset zs))" for zs
    by (simp flip: sum_mset_sum_list)
  with eq show ?thesis by (simp add: mset_concat)
qed

text \<open>
  C7, as stated, fails: with the grouping key read as "the dependency key when present",
  the two units of \<^const>\<open>empty_dependency_proposal\<close> carry the same present dependency
  (the empty string) and would form one group of storage sum 3. The code's
  \<^verbatim>\<open>dependency or fqn\<close> treats the empty string like \<^verbatim>\<open>None\<close>: each unit is keyed by its
  own fully qualified name and forms a group of its own.
\<close>

theorem group_and_sort_empty_dependency_counterexample:
  "dependency (empty_dependency_proposal ! 0) = Some []
   \<and> dependency (empty_dependency_proposal ! 1) = Some []
   \<and> map sharding_options (spec_groups dependency_if_present empty_dependency_proposal)
       = [[0, 1]]
   \<and> map sharding_options
         (group_and_sort_non_uniform_sharding_options empty_dependency_proposal)
       = [[1], [0]]
   \<and> group_and_sort_non_uniform_sharding_options empty_dependency_proposal
       \<noteq> sort_reverse (\<lambda>g. storage_key (storage_sum g))
            (spec_groups dependency_if_present empty_dependency_proposal)"
proof -
  have deps: "dependency (empty_dependency_proposal ! 0) = Some []
      \<and> dependency (empty_dependency_proposal ! 1) = Some []"
    by (simp add: empty_dependency_proposal_def)
  have present: "map sharding_options
      (spec_groups dependency_if_present empty_dependency_proposal) = [[0, 1]]"
    by code_simp
  have code: "map sharding_options
      (group_and_sort_non_uniform_sharding_options empty_dependency_proposal) = [[1], [0]]"
    by code_simp
  have differ: "group_and_sort_non_uniform_sharding_options empty_dependency_proposal
       \<noteq> sort_reverse (\<lambda>g. storage_key (storage_sum g))
            (spec_groups dependency_if_present empty_dependency_proposal)"
    by code_simp
  from deps present code differ show ?thesis by blast
qed

text \<open>
  C7, amended. The grouping stage groups exactly the non-uniform units: the members of
  the groups are, together, the non-uniform units, each once. The grouping key of a unit
  is its dependency key when that is a non-empty string, and otherwise (no dependency, or
  the empty string) its fully qualified name. \<^term>\<open>spec_groups dependency_if_non_empty p\<close>
  lists, for each such key in the order of first occurrence, the units with that key and
  the sum of their storage. The result is that list sorted by descending storage sum, and
  the sort is stable: among the groups of any one storage sum the insertion order is
  kept.
\<close>

theorem group_and_sort_non_uniform_sharding_options_spec:
  "(\<forall>so. group_key so =
          (if dependency so = None \<or> dependency so = Some [] then fqn so
           else the (dependency so)))
   \<and> mset (concat (map sharding_options (group_and_sort_non_uniform_sharding_options p)))
     = mset (spec_non_uniform p)
   \<and> mset (group_and_sort_non_uniform_sharding_options p)
     = mset (spec_groups dependency_if_non_empty p)
   \<and> sorted (rev (map (\<lambda>g. storage_key (storage_sum g))
                      (group_and_sort_non_uniform_sharding_options p)))
   \<and> (\<forall>v. filter (\<lambda>g. storage_key (storage_sum g) = v)
               (group_and_sort_non_uniform_sharding_options p)
            = filter (\<lambda>g. storage_key (storage_sum g) = v)
                (spec_groups dependency_if_non_empty p))"
proof -
  have key: "\<forall>so. group_key so =
          (if dependency so = None \<or> dependency so = Some [] then fqn so
           else the (dependency so))"
    by (simp add: group_key_non_empty dependency_if_non_empty_def)
  have "mset (concat (map sharding_options (group_and_sort_non_uniform_sharding_options p)))
        = mset (concat (map sharding_options (spec_groups dependency_if_non_empty p)))"
    unfolding group_and_sort_eq by (rule mset_concat_cong) simp
  then have rest: "mset (concat (map sharding_options (group_and_sort_non_uniform_sharding_options p)))
     = mset (spec_non_uniform p)
   \<and> mset (group_and_sort_non_uniform_sharding_options p)
     = mset (spec_groups dependency_if_non_empty p)
   \<and> sorted (rev (map (\<lambda>g. storage_key (storage_sum g))
                      (group_and_sort_non_uniform_sharding_options p)))
   \<and> (\<forall>v. filter (\<lambda>g. storage_key (storage_sum g) = v)
               (group_and_sort_non_uniform_sharding_options p)
            = filter (\<lambda>g. storage_key (storage_sum g) = v)
                (spec_groups dependency_if_non_empty p))"
    by (simp add: mset_spec_groups group_and_sort_eq sort_reverse_sorted sort_reverse_stable)
  from key rest show ?thesis by blast
qed

section \<open>Frame: which cells of the store a call writes\<close>

lemma state_of_map_state [simp]: "state_of (map_state f r) = f (state_of r)"
  by (cases r) auto
lemma returns_map_state [simp]: "returns (map_state f r) = returns r"
  by (cases r) auto
lemma map_state_eq_Return: "map_state f r = Return s \<longleftrightarrow> (\<exists>s0. r = Return s0 \<and> s = f s0)"
  by (cases r) auto
lemma map_state_eq_Raise: "map_state f r = Raise e s \<longleftrightarrow> (\<exists>s0. r = Raise e s0 \<and> s = f s0)"
  by (cases r) auto

text \<open>
  \<open>frame n h h'\<close>: the store \<open>h'\<close> extends \<open>h\<close> and agrees with it on the cells below \<open>n\<close>.
\<close>

definition frame :: "nat \<Rightarrow> heap \<Rightarrow> heap \<Rightarrow> bool" where
  "frame n h h' \<longleftrightarrow> length h \<le> length h' \<and> (\<forall>r<n. h' ! r = h ! r)"

lemma frame_refl [simp]: "frame n h h" by (simp add: frame_def)







lemma find_NoneD: "find P xs = None \<Longrightarrow> \<forall>x\<in>set xs. \<not> P x"
  by (induction xs) (auto split: if_splits)















section \<open>An example placement\<close>






section \<open>The caller's topology\<close>



section \<open>The uniform packer\<close>










end
